theory Spec2Isabelle
  imports Complex_Main "HOL-Library.Stream"
begin

section \<open>Numbers, errors and the sources of randomness and time\<close>

text \<open>
  The program is Python. Its \<^verbatim>\<open>int\<close> values are unbounded integers (\<^typ>\<open>int\<close>); its
  \<^verbatim>\<open>float\<close> values are modelled as \<^typ>\<open>real\<close>, so every statement below about a
  float-valued expression is a statement about the exact real value of that expression, not
  about its IEEE rounding.
\<close>

datatype py_error = IndexError | ValueError

text \<open>Python's \<^verbatim>\<open>int(f)\<close> on a float: truncation toward zero.\<close>

definition py_int :: "real \<Rightarrow> int" where
  "py_int r = (if 0 \<le> r then \<lfloor>r\<rfloor> else \<lceil>r\<rceil>)"

text \<open>Python's \<^verbatim>\<open>seq[i]\<close>: a negative index counts from the end, anything else out of
  range raises \<^verbatim>\<open>IndexError\<close>.\<close>

definition py_index :: "'a list \<Rightarrow> int \<Rightarrow> py_error + 'a" where
  "py_index seq i =
     (if 0 \<le> i \<and> i < int (length seq) then Inr (seq ! nat i)
      else if i < 0 \<and> 0 \<le> int (length seq) + i then Inr (seq ! nat (int (length seq) + i))
      else Inl IndexError)"

text \<open>
  The module \<^verbatim>\<open>random\<close> is a stream of raw draws, consumed one per call of
  \<^verbatim>\<open>_randbelow\<close> or \<^verbatim>\<open>random()\<close>; \<^verbatim>\<open>time.time()\<close> is a stream of clock readings,
  consumed one per call. Both are threaded through every function that uses them.
\<close>

record world =
  rng :: "nat stream"
  clock :: "real stream"

definition time_time :: "world \<Rightarrow> real \<times> world" where
  "time_time w = (shd (clock w), w\<lparr>clock := stl (clock w)\<rparr>)"

text \<open>\<^verbatim>\<open>_randbelow(n)\<close> for \<open>n > 0\<close>: a value in \<open>[0, n)\<close>, got from one raw draw (the
  draw stands for the outcome of the library's own sampling of bits).\<close>

definition randbelow :: "nat \<Rightarrow> world \<Rightarrow> nat \<times> world" where
  "randbelow n w = (shd (rng w) mod n, w\<lparr>rng := stl (rng w)\<rparr>)"

text \<open>\<^verbatim>\<open>random.randint(a, b)\<close> is \<^verbatim>\<open>a + _randbelow(b - a + 1)\<close> (used with \<open>a \<le> b\<close> only).\<close>

definition randint :: "int \<Rightarrow> int \<Rightarrow> world \<Rightarrow> int \<times> world" where
  "randint a b w = (let (r, w') = randbelow (nat (b - a + 1)) w in (a + int r, w'))"

text \<open>\<^verbatim>\<open>random.random()\<close>: 53 random bits scaled into \<open>[0, 1)\<close>.\<close>

definition random_random :: "world \<Rightarrow> real \<times> world" where
  "random_random w = (real (shd (rng w) mod 2 ^ 53) / 2 ^ 53, w\<lparr>rng := stl (rng w)\<rparr>)"

text \<open>\<^verbatim>\<open>random.uniform(a, b)\<close> is \<^verbatim>\<open>a + (b - a) * random()\<close>.\<close>

definition uniform :: "real \<Rightarrow> real \<Rightarrow> world \<Rightarrow> real \<times> world" where
  "uniform a b w = (let (u, w') = random_random w in (a + (b - a) * u, w'))"

text \<open>\<^verbatim>\<open>random.choice(seq)\<close> is \<^verbatim>\<open>seq[_randbelow(len(seq))]\<close>; it raises
  \<^verbatim>\<open>IndexError\<close> on an empty sequence.\<close>

definition choice :: "'a list \<Rightarrow> world \<Rightarrow> py_error + ('a \<times> world)" where
  "choice seq w =
     (if seq = [] then Inl IndexError
      else let (j, w') = randbelow (length seq) w in Inr (seq ! j, w'))"

section \<open>Constants of the module\<close>

definition WIDTH :: int where "WIDTH = 600"
definition HEIGHT :: int where "HEIGHT = 600"

definition GRAVITY :: real where "GRAVITY = 1 / 10"
definition MAX_DELAY :: real where "MAX_DELAY = 5 / 2"
definition PARTICLE_COUNT :: nat where "PARTICLE_COUNT = 1000"

type_synonym color = "int \<times> int \<times> int"

definition PINK :: color where "PINK = (219, 112, 147)"
definition SOFTER_PINK :: color where "SOFTER_PINK = (255, 204, 213)"

text \<open>\<^verbatim>\<open>c[0]\<close>, \<^verbatim>\<open>c[1]\<close>, \<^verbatim>\<open>c[2]\<close> of an RGB triple.\<close>

definition chan0 :: "color \<Rightarrow> int" where "chan0 c = fst c"
definition chan1 :: "color \<Rightarrow> int" where "chan1 c = fst (snd c)"
definition chan2 :: "color \<Rightarrow> int" where "chan2 c = snd (snd c)"

definition scale :: "int list" where "scale = [150, 120]"

definition center_x :: int where "center_x = WIDTH div 2"
definition center_y :: int where "center_y = HEIGHT div 2"

section \<open>The heart curve and the colour gradient\<close>

text \<open>\<^verbatim>\<open>heart_equation(x, y, scale_type)\<close>. Both entries of \<^verbatim>\<open>scale\<close> are non-zero, so
  the only exception is the \<^verbatim>\<open>IndexError\<close> of \<^verbatim>\<open>scale[scale_type]\<close>.\<close>

definition heart_equation :: "real \<Rightarrow> real \<Rightarrow> int \<Rightarrow> py_error + bool" where
  "heart_equation x y scale_type =
     (case py_index scale scale_type of
        Inl e \<Rightarrow> Inl e
      | Inr s \<Rightarrow>
          (let x' = x / real_of_int s;
               y' = y / real_of_int s;
               res = (x'\<^sup>2 + y'\<^sup>2 - 1) ^ 3 - x'\<^sup>2 * y' ^ 3
           in Inr (res \<le> 0)))"

definition get_fade_color :: "real \<Rightarrow> real \<Rightarrow> color" where
  "get_fade_color real_x real_y =
     (let max_distance = sqrt (real_of_int ((WIDTH div 2)\<^sup>2 + (HEIGHT div 2)\<^sup>2));
          distance = sqrt (real_x\<^sup>2 + real_y\<^sup>2);
          fade_factor = 1 - distance / max_distance;
          fade_factor = max 0 fade_factor;
          r = py_int (real_of_int (chan0 PINK) * fade_factor
                      + real_of_int (chan0 SOFTER_PINK) * (1 - fade_factor));
          g = py_int (real_of_int (chan1 PINK) * fade_factor
                      + real_of_int (chan1 SOFTER_PINK) * (1 - fade_factor));
          b = py_int (real_of_int (chan2 PINK) * fade_factor
                      + real_of_int (chan2 SOFTER_PINK) * (1 - fade_factor))
      in (r, g, b))"

section \<open>The heartbeat scale factor\<close>

text \<open>The first lines of \<^verbatim>\<open>heart_beat\<close>: \<open>now\<close> is the reading of \<^verbatim>\<open>time.time()\<close>,
  and \<^verbatim>\<open>math.pow(s, 3)\<close> is the cube.\<close>

definition scale_factor :: "real \<Rightarrow> real" where
  "scale_factor now =
     (let t = now * 2
      in if sin t > 0 then 1 + 0.06 * (sin t) ^ 3 else 1 + 0.06 * sin t)"

section \<open>Points, the store of points, and particles\<close>

text \<open>
  Class \<^verbatim>\<open>Pos\<close>. The fields \<^verbatim>\<open>x\<close>, \<^verbatim>\<open>y\<close>, \<^verbatim>\<open>real_x\<close>, \<^verbatim>\<open>real_y\<close>, \<^verbatim>\<open>color\<close>
  carry the prefix \<open>pos_\<close> here (and \<open>part_\<close> in \<^verbatim>\<open>Particle\<close>), because the two
  classes share their field names and \<open>x\<close>, \<open>y\<close> are wanted as variables.
\<close>

record Pos =
  pos_x :: int
  pos_y :: int
  pos_real_x :: int
  pos_real_y :: int
  pos_color :: color

text \<open>
  \<^verbatim>\<open>Pos\<close> objects are mutated in place and the two clouds are lists of such objects, so
  a cloud is a list of references into a store. Two lists may share a reference; what a
  function does then is what the definitions below compute.
\<close>

type_synonym ref = nat
type_synonym store = "ref \<Rightarrow> Pos"

record Particle =
  part_x :: int
  part_y :: real
  part_real_x :: int
  part_real_y :: int
  part_color :: color
  start_time :: real
  velocity :: real
  active :: bool

text \<open>\<^verbatim>\<open>Particle.__init__\<close>: it reads the clock once.\<close>

definition Particle_init ::
  "int \<Rightarrow> int \<Rightarrow> color \<Rightarrow> int \<Rightarrow> int \<Rightarrow> real \<Rightarrow> world \<Rightarrow> Particle \<times> world" where
  "Particle_init x y c real_x real_y delay w =
     (let (now, w') = time_time w
      in (\<lparr>part_x = x, part_y = real_of_int y, part_real_x = real_x, part_real_y = real_y,
           part_color = c, start_time = now + delay, velocity = 0, active = False\<rparr>, w'))"

section \<open>The heartbeat deformer\<close>

text \<open>
  The loop of \<^verbatim>\<open>heart_beat\<close> over \<^verbatim>\<open>range(len(heart_data))\<close>: the two lists are walked
  together, and \<^verbatim>\<open>original_heart_data[i]\<close> raises when that list is the shorter one. Both
  original coordinates are read before the first write, as in the source.
\<close>

fun heart_beat_loop ::
  "real \<Rightarrow> ref list \<Rightarrow> ref list \<Rightarrow> store \<Rightarrow> world \<Rightarrow> py_error + (store \<times> world)" where
  "heart_beat_loop sf [] original s w = Inr (s, w)"
| "heart_beat_loop sf (h # hs) [] s w = Inl IndexError"
| "heart_beat_loop sf (h # hs) (r # rs) s w =
     (let original_x = pos_real_x (s r);
          original_y = pos_real_y (s r);
          (jx, w1) = randint (- 3) 3 w;
          s1 = s(h := (s h)\<lparr>pos_real_x := py_int (real_of_int original_x * sf) + jx\<rparr>);
          (jy, w2) = randint (- 3) 3 w1;
          s2 = s1(h := (s1 h)\<lparr>pos_real_y := py_int (real_of_int original_y * sf) + jy\<rparr>);
          s3 = s2(h := (s2 h)\<lparr>pos_x := center_x + pos_real_x (s2 h)\<rparr>);
          s4 = s3(h := (s3 h)\<lparr>pos_y := center_y - pos_real_y (s3 h)\<rparr>)
      in heart_beat_loop sf hs rs s4 w2)"

text \<open>\<^verbatim>\<open>heart_beat(heart_data, original_heart_data, frame)\<close>; the argument \<^verbatim>\<open>frame\<close> is
  not used by the source.\<close>

definition heart_beat ::
  "ref list \<Rightarrow> ref list \<Rightarrow> real \<Rightarrow> store \<Rightarrow> world \<Rightarrow> py_error + (store \<times> world)" where
  "heart_beat heart_data original_heart_data frame s w =
     (let (now, w1) = time_time w
      in heart_beat_loop (scale_factor now) heart_data original_heart_data s w1)"

text \<open>The pass over \<^verbatim>\<open>heart_data_root\<close> at start-up that recomputes \<^verbatim>\<open>real_x\<close> and
  \<^verbatim>\<open>real_y\<close> from the screen position.\<close>

fun normalize_root :: "ref list \<Rightarrow> store \<Rightarrow> store" where
  "normalize_root [] s = s"
| "normalize_root (r # rs) s =
     (let s1 = s(r := (s r)\<lparr>pos_real_x := pos_x (s r) - center_x\<rparr>);
          s2 = s1(r := (s1 r)\<lparr>pos_real_y := center_y - pos_y (s1 r)\<rparr>)
      in normalize_root rs s2)"

section \<open>The particle simulator\<close>

text \<open>
  Turning a list of points into fresh particles, each with a delay drawn by
  \<^verbatim>\<open>random.uniform(0, hi)\<close>: the list comprehension of \<^verbatim>\<open>generate_falling_particles\<close>
  (\<open>hi\<close> is \<^verbatim>\<open>MAX_DELAY\<close>) and the second loop of \<^verbatim>\<open>update_falling_particles\<close> (\<open>hi\<close> is
  1). The delay is an argument of the constructor, so it is drawn before the constructor
  reads the clock.
\<close>

fun make_particles :: "Pos list \<Rightarrow> real \<Rightarrow> world \<Rightarrow> Particle list \<times> world" where
  "make_particles [] hi w = ([], w)"
| "make_particles (p # ps) hi w =
     (let (delay, w1) = uniform 0 hi w;
          (q, w2) = Particle_init (pos_x p) (pos_y p) (pos_color p)
                      (pos_real_x p) (pos_real_y p) delay w1;
          (qs, w3) = make_particles ps hi w2
      in (q # qs, w3))"

text \<open>
  \<^verbatim>\<open>random.sample(population, k)\<close> of the standard library: \<open>k\<close> elements from pairwise
  different positions, \<^verbatim>\<open>ValueError\<close> when the population is smaller than \<open>k\<close>. The
  library selects in one of two ways, by the sizes: from a shrinking pool, where the chosen
  slot is refilled with the last element, or by drawing positions again until an unused
  one comes. Both give \<open>k\<close> different positions; the model is the first for all sizes, one
  draw for each element.
\<close>

fun sample_loop :: "'a list \<Rightarrow> nat \<Rightarrow> world \<Rightarrow> 'a list \<times> world" where
  "sample_loop pool 0 w = ([], w)"
| "sample_loop pool (Suc k) w =
     (let (j, w1) = randbelow (length pool) w;
          picked = pool ! j;
          (rest, w2) = sample_loop (butlast (pool[j := last pool])) k w1
      in (picked # rest, w2))"

definition sample :: "'a list \<Rightarrow> nat \<Rightarrow> world \<Rightarrow> py_error + ('a list \<times> world)" where
  "sample population k w =
     (if length population < k then Inl ValueError else Inr (sample_loop population k w))"

text \<open>\<^verbatim>\<open>generate_falling_particles(heart_data, count)\<close>; \<^verbatim>\<open>sorted\<close> is stable, as
  \<^const>\<open>sort_key\<close> is.\<close>

definition generate_falling_particles ::
  "Pos list \<Rightarrow> nat \<Rightarrow> world \<Rightarrow> py_error + (Particle list \<times> world)" where
  "generate_falling_particles heart_data count w =
     (let sorted_heart_data = sort_key pos_real_y heart_data;
          bottom_particles = take 5000 sorted_heart_data
      in case sample bottom_particles count w of
           Inl e \<Rightarrow> Inl e
         | Inr (chosen, w1) \<Rightarrow> Inr (make_particles chosen MAX_DELAY w1))"

text \<open>A call of \<^verbatim>\<open>screen.set_at\<close>: the position and the colour.\<close>

type_synonym pixel = "(int \<times> int) \<times> color"

text \<open>
  The first loop of \<^verbatim>\<open>update_falling_particles\<close>. It walks a copy of the pool, so the
  result lists the particles that stay (in their order, as updated), the points chosen for
  the replacements (\<^verbatim>\<open>new_particles\<close>), and the pixels drawn. \<^verbatim>\<open>particles.remove(p)\<close>
  removes the object \<open>p\<close> itself: the class defines no equality. The argument \<open>heart_data_root\<close>
  is the global of that name, read at the time of the call.
\<close>

fun update_loop ::
  "real \<Rightarrow> Pos list \<Rightarrow> Particle list \<Rightarrow> world
   \<Rightarrow> py_error + (Particle list \<times> Pos list \<times> pixel list \<times> world)" where
  "update_loop current_time heart_data_root [] w = Inr ([], [], [], w)"
| "update_loop current_time heart_data_root (p # ps) w =
     (if \<not> active p \<and> \<not> start_time p \<le> current_time then
        (case update_loop current_time heart_data_root ps w of
           Inl e \<Rightarrow> Inl e
         | Inr (kept, new_particles, drawn, w') \<Rightarrow> Inr (p # kept, new_particles, drawn, w'))
      else
        (let p1 = p\<lparr>active := True\<rparr>;
             p2 = p1\<lparr>velocity := velocity p1 + GRAVITY\<rparr>;
             p3 = p2\<lparr>part_y := part_y p2 + velocity p2\<rparr>
         in if part_y p3 > real_of_int HEIGHT then
              (case choice heart_data_root w of
                 Inl e \<Rightarrow> Inl e
               | Inr (c, w1) \<Rightarrow>
                   (case update_loop current_time heart_data_root ps w1 of
                      Inl e \<Rightarrow> Inl e
                    | Inr (kept, new_particles, drawn, w') \<Rightarrow>
                        Inr (kept, c # new_particles, drawn, w')))
            else
              (case update_loop current_time heart_data_root ps w of
                 Inl e \<Rightarrow> Inl e
               | Inr (kept, new_particles, drawn, w') \<Rightarrow>
                   Inr (p3 # kept, new_particles,
                        ((part_x p3, py_int (part_y p3)), part_color p3) # drawn, w'))))"

definition update_falling_particles ::
  "Particle list \<Rightarrow> Pos list \<Rightarrow> world \<Rightarrow> py_error + (Particle list \<times> pixel list \<times> world)" where
  "update_falling_particles particles heart_data_root w =
     (let (current_time, w1) = time_time w
      in case update_loop current_time heart_data_root particles w1 of
           Inl e \<Rightarrow> Inl e
         | Inr (kept, new_particles, drawn, w2) \<Rightarrow>
             (let (fresh, w3) = make_particles new_particles 1 w2
              in Inr (kept @ fresh, drawn, w3)))"

section \<open>The geometry generator and the copy of the cloud\<close>

text \<open>\<^verbatim>\<open>range(start, stop, step)\<close> for a positive step.\<close>

definition py_range :: "int \<Rightarrow> int \<Rightarrow> int \<Rightarrow> int list" where
  "py_range start stop step =
     map (\<lambda>k. start + step * int k) [0..<nat ((stop - start + step - 1) div step)]"

text \<open>
  Objects are created at start-up only. The memory is the store together with the next
  unused reference; \<^verbatim>\<open>Pos(...)\<close> takes that reference for the new object.
\<close>

record memory =
  cells :: store
  next_ref :: ref

definition blank :: Pos where
  "blank = \<lparr>pos_x = 0, pos_y = 0, pos_real_x = 0, pos_real_y = 0, pos_color = (0, 0, 0)\<rparr>"

definition empty_memory :: memory where
  "empty_memory = \<lparr>cells = (\<lambda>r. blank), next_ref = 0\<rparr>"

definition new_Pos :: "Pos \<Rightarrow> memory \<Rightarrow> ref \<times> memory" where
  "new_Pos p m =
     (next_ref m, m\<lparr>cells := (cells m)(next_ref m := p), next_ref := Suc (next_ref m)\<rparr>)"

text \<open>
  The two nested loops of \<^verbatim>\<open>get_pos_begin\<close> and of \<^verbatim>\<open>get_hide_pos\<close>, which differ in
  the ranges they scan and in the bounds \<open>jx\<close>, \<open>jy\<close> of the jitter only: the inner loop
  over \<^verbatim>\<open>real_y\<close> for one \<^verbatim>\<open>real_x\<close>, and the outer loop over \<^verbatim>\<open>real_x\<close>. The jitter of
  \<open>x\<close> is drawn before the jitter of \<open>y\<close>; the new object is appended to \<^verbatim>\<open>heart_data\<close>.
\<close>

fun scan_column ::
  "int \<Rightarrow> int \<Rightarrow> int \<Rightarrow> int \<Rightarrow> int list \<Rightarrow> ref list \<Rightarrow> memory \<Rightarrow> world
   \<Rightarrow> py_error + (ref list \<times> memory \<times> world)" where
  "scan_column jx jy scale_type real_x [] heart_data m w = Inr (heart_data, m, w)"
| "scan_column jx jy scale_type real_x (real_y # ys) heart_data m w =
     (case heart_equation (real_of_int real_x) (real_of_int real_y) scale_type of
        Inl e \<Rightarrow> Inl e
      | Inr inside \<Rightarrow>
          if inside then
            (let screen_x = center_x + real_x;
                 screen_y = center_y - real_y;
                 c = get_fade_color (real_of_int real_x) (real_of_int real_y);
                 (dx, w1) = randint (- jx) jx w;
                 (dy, w2) = randint (- jy) jy w1;
                 (r, m1) = new_Pos \<lparr>pos_x = screen_x + dx, pos_y = screen_y + dy,
                                    pos_real_x = real_x, pos_real_y = real_y,
                                    pos_color = c\<rparr> m
             in scan_column jx jy scale_type real_x ys (heart_data @ [r]) m1 w2)
          else scan_column jx jy scale_type real_x ys heart_data m w)"

fun scan_rows ::
  "int \<Rightarrow> int \<Rightarrow> int \<Rightarrow> int list \<Rightarrow> int list \<Rightarrow> ref list \<Rightarrow> memory \<Rightarrow> world
   \<Rightarrow> py_error + (ref list \<times> memory \<times> world)" where
  "scan_rows jx jy scale_type [] ys heart_data m w = Inr (heart_data, m, w)"
| "scan_rows jx jy scale_type (real_x # xs) ys heart_data m w =
     (case scan_column jx jy scale_type real_x ys heart_data m w of
        Inl e \<Rightarrow> Inl e
      | Inr (heart_data', m', w') \<Rightarrow> scan_rows jx jy scale_type xs ys heart_data' m' w')"

text \<open>\<^verbatim>\<open>-WIDTH // 2\<close> is \<^verbatim>\<open>(-WIDTH) // 2\<close>.\<close>

definition get_pos_begin ::
  "ref list \<Rightarrow> int \<Rightarrow> memory \<Rightarrow> world \<Rightarrow> py_error + (ref list \<times> memory \<times> world)" where
  "get_pos_begin heart_data scale_type m w =
     scan_rows 20 10 scale_type
       (py_range ((- WIDTH) div 2) (WIDTH div 2) 1)
       (py_range ((- HEIGHT) div 2) (HEIGHT div 2) 2) heart_data m w"

definition get_hide_pos ::
  "ref list \<Rightarrow> int \<Rightarrow> memory \<Rightarrow> world \<Rightarrow> py_error + (ref list \<times> memory \<times> world)" where
  "get_hide_pos heart_data scale_type m w =
     scan_rows 5 10 scale_type
       (py_range ((- WIDTH) div 2) (WIDTH div 2) 1)
       (py_range ((- HEIGHT) div 2) (HEIGHT div 2) 1) heart_data m w"

text \<open>
  \<^verbatim>\<open>deepcopy\<close> of a list of points: every object is copied into a new one, once (the
  memo maps an object already copied to its copy). The colour is a tuple of integers and
  is shared.
\<close>

fun deepcopy_list :: "ref list \<Rightarrow> (ref \<rightharpoonup> ref) \<Rightarrow> memory \<Rightarrow> ref list \<times> memory" where
  "deepcopy_list [] memo m = ([], m)"
| "deepcopy_list (r # rs) memo m =
     (case memo r of
        Some c \<Rightarrow> (let (cs, m') = deepcopy_list rs memo m in (c # cs, m'))
      | None \<Rightarrow>
          (let (c, m1) = new_Pos (cells m r) m;
               (cs, m2) = deepcopy_list rs (memo(r \<mapsto> c)) m1
           in (c # cs, m2)))"

definition deepcopy :: "ref list \<Rightarrow> memory \<Rightarrow> ref list \<times> memory" where
  "deepcopy rs m = deepcopy_list rs Map.empty m"

section \<open>The frame driver\<close>

text \<open>Every batch of generated particles has the length that was asked for; the top-up
  loop terminates because of it.\<close>

lemma make_particles_length:
  "make_particles ps hi w = (qs, w') \<Longrightarrow> length qs = length ps"
  by (induction ps arbitrary: qs w w') (auto simp: Let_def split: prod.splits)

lemma sample_loop_length:
  "sample_loop pool k w = (xs, w') \<Longrightarrow> length xs = k"
  by (induction k arbitrary: pool xs w w') (auto simp: Let_def split: prod.splits)

lemma generate_falling_particles_length:
  assumes "generate_falling_particles heart_data count w = Inr (ps, w')"
  shows "length ps = count"
  using assms
  by (auto simp: generate_falling_particles_def sample_def Let_def
      split: if_splits sum.splits prod.splits
      dest!: make_particles_length sample_loop_length)

text \<open>The loop \<^verbatim>\<open>while len(falling_particles) < PARTICLE_COUNT\<close> of the main loop; the
  first argument is the working cloud \<^verbatim>\<open>heart_data\<close> as it is when the loop runs.\<close>

function top_up ::
  "Pos list \<Rightarrow> Particle list \<Rightarrow> world \<Rightarrow> py_error + (Particle list \<times> world)" where
  "top_up heart_data falling_particles w =
     (if length falling_particles < PARTICLE_COUNT then
        (case generate_falling_particles heart_data 5 w of
           Inl e \<Rightarrow> Inl e
         | Inr (batch, w') \<Rightarrow> top_up heart_data (falling_particles @ batch) w')
      else Inr (falling_particles, w))"
  by pat_completeness auto
termination
proof (relation "measure (\<lambda>(heart_data, falling_particles, w). PARTICLE_COUNT - length falling_particles)")
  show "wf (measure (\<lambda>(heart_data, falling_particles, w). PARTICLE_COUNT - length falling_particles))"
    by simp
next
  fix heart_data :: "Pos list" and falling_particles :: "Particle list" and w :: world
    and x2 :: "Particle list \<times> world" and batch w'
  assume small: "length falling_particles < PARTICLE_COUNT"
    and gen: "generate_falling_particles heart_data 5 w = Inr x2"
    and x2: "(batch, w') = x2"
  from gen x2 have "length batch = 5"
    using generate_falling_particles_length [of heart_data 5 w batch w'] by simp
  with small
  show "((heart_data, falling_particles @ batch, w'), (heart_data, falling_particles, w))
        \<in> measure (\<lambda>(heart_data, falling_particles, w). PARTICLE_COUNT - length falling_particles)"
    by simp
qed

declare top_up.simps [simp del]

text \<open>
  The globals of the module. \<open>screen\<close> holds the pixels set since the last
  \<^verbatim>\<open>screen.fill(BLACK)\<close>.
\<close>

record state =
  heap :: store
  heart_data :: "ref list"
  heart_data_root :: "ref list"
  falling_particles :: "Particle list"
  screen :: "pixel list"
  env :: world

text \<open>One pass of the body of the main loop (polling the events only decides whether
  another pass follows).\<close>

definition frame :: "state \<Rightarrow> py_error + state" where
  "frame st =
     (case heart_beat (heart_data st) (heart_data_root st) 0 (heap st) (env st) of
        Inl e \<Rightarrow> Inl e
      | Inr (s1, w1) \<Rightarrow>
          (let drawn1 = map (\<lambda>r. ((pos_x (s1 r), pos_y (s1 r)), pos_color (s1 r))) (heart_data st)
           in case update_falling_particles (falling_particles st)
                     (map s1 (heart_data_root st)) w1 of
                Inl e \<Rightarrow> Inl e
              | Inr (pool1, drawn2, w2) \<Rightarrow>
                  (case top_up (map s1 (heart_data st)) pool1 w2 of
                     Inl e \<Rightarrow> Inl e
                   | Inr (pool2, w3) \<Rightarrow>
                       Inr (st\<lparr>heap := s1, falling_particles := pool2,
                               screen := drawn1 @ drawn2, env := w3\<rparr>))))"

fun frames :: "nat \<Rightarrow> state \<Rightarrow> py_error + state" where
  "frames 0 st = Inr st"
| "frames (Suc n) st = (case frame st of Inl e \<Rightarrow> Inl e | Inr st' \<Rightarrow> frames n st')"

text \<open>
  The module-level code before the main loop: the root cloud is generated in two layers,
  copied into the working cloud, the pool is seeded from the root cloud, and then the
  root cloud is normalized (the copy and the pool are taken before that pass).
\<close>

definition startup :: "world \<Rightarrow> py_error + state" where
  "startup w =
     (case get_pos_begin [] 0 empty_memory w of
        Inl e \<Rightarrow> Inl e
      | Inr (root0, m1, w1) \<Rightarrow>
          (case get_hide_pos [] 1 m1 w1 of
             Inl e \<Rightarrow> Inl e
           | Inr (layout_2, m2, w2) \<Rightarrow>
               (let root1 = root0 @ layout_2;
                    (working, m3) = deepcopy root1 m2
                in case generate_falling_particles (map (cells m3) root1) PARTICLE_COUNT w2 of
                     Inl e \<Rightarrow> Inl e
                   | Inr (particles, w3) \<Rightarrow>
                       Inr \<lparr>heap = normalize_root root1 (cells m3), heart_data = working,
                            heart_data_root = root1, falling_particles = particles,
                            screen = [], env = w3\<rparr>)))"

section \<open>Notions used in the statements\<close>

text \<open>The value of \<^verbatim>\<open>random.randint(-3, 3)\<close> on the raw draw \<open>n\<close>.\<close>

definition jitter3 :: "nat \<Rightarrow> int" where
  "jitter3 n = - 3 + int (n mod 7)"

text \<open>What one pass of the loop of \<^verbatim>\<open>heart_beat\<close> makes of the working point \<open>p\<close>, given
  the root point \<open>orig\<close>, the scale factor and the two jitters.\<close>

definition deformed :: "real \<Rightarrow> Pos \<Rightarrow> Pos \<Rightarrow> int \<Rightarrow> int \<Rightarrow> Pos" where
  "deformed sf orig p jx jy =
     p\<lparr>pos_real_x := py_int (real_of_int (pos_real_x orig) * sf) + jx,
       pos_real_y := py_int (real_of_int (pos_real_y orig) * sf) + jy,
       pos_x := center_x + (py_int (real_of_int (pos_real_x orig) * sf) + jx),
       pos_y := center_y - (py_int (real_of_int (pos_real_y orig) * sf) + jy)\<rparr>"

text \<open>The coordinate invariant of a point.\<close>

definition coord_inv :: "Pos \<Rightarrow> bool" where
  "coord_inv p \<longleftrightarrow> pos_x p = center_x + pos_real_x p \<and> pos_y p = center_y - pos_real_y p"

text \<open>Rounding to the nearest integer, halves away from zero, as the specification words
  the deformer.\<close>

definition spec_round :: "real \<Rightarrow> int" where
  "spec_round r = (if 0 \<le> r then \<lfloor>r + 1 / 2\<rfloor> else \<lceil>r - 1 / 2\<rceil>)"

text \<open>The gradient as the specification words it: the distance from the centre to a
  corner, the fade factor clamped to \<open>[0, 1]\<close>, and the interpolation of one channel
  with the fade factor as the weight of the near colour.\<close>

definition corner_distance :: real where
  "corner_distance = sqrt (real_of_int ((WIDTH div 2)\<^sup>2 + (HEIGHT div 2)\<^sup>2))"

definition spec_clamp :: "real \<Rightarrow> real \<Rightarrow> real \<Rightarrow> real" where
  "spec_clamp v lo hi = min hi (max lo v)"

definition spec_fade :: "real \<Rightarrow> real \<Rightarrow> real" where
  "spec_fade dx dy = spec_clamp (1 - sqrt (dx\<^sup>2 + dy\<^sup>2) / corner_distance) 0 1"

definition spec_mix :: "int \<Rightarrow> int \<Rightarrow> real \<Rightarrow> real" where
  "spec_mix near far fade = real_of_int near * fade + real_of_int far * (1 - fade)"

definition spec_gradient :: "real \<Rightarrow> real \<Rightarrow> color" where
  "spec_gradient dx dy =
     (py_int (spec_mix (chan0 PINK) (chan0 SOFTER_PINK) (spec_fade dx dy)),
      py_int (spec_mix (chan1 PINK) (chan1 SOFTER_PINK) (spec_fade dx dy)),
      py_int (spec_mix (chan2 PINK) (chan2 SOFTER_PINK) (spec_fade dx dy)))"

text \<open>The value of \<^verbatim>\<open>random.random()\<close> on the raw draw \<open>n\<close>.\<close>

definition unit_draw :: "nat \<Rightarrow> real" where
  "unit_draw n = real (n mod 2 ^ 53) / 2 ^ 53"

text \<open>The particle that \<^verbatim>\<open>Particle(p.x, p.y, p.color, p.real_x, p.real_y, delay)\<close> builds
  from the point \<open>q\<close> when the clock reads \<open>now\<close>, and what it means for a particle to carry
  the coordinates and the colour of a point.\<close>

definition particle_of :: "Pos \<Rightarrow> real \<Rightarrow> real \<Rightarrow> Particle" where
  "particle_of q delay now =
     \<lparr>part_x = pos_x q, part_y = real_of_int (pos_y q), part_real_x = pos_real_x q,
      part_real_y = pos_real_y q, part_color = pos_color q,
      start_time = now + delay, velocity = 0, active = False\<rparr>"

definition built_from :: "Pos \<Rightarrow> Particle \<Rightarrow> bool" where
  "built_from q p \<longleftrightarrow>
     part_x p = pos_x q \<and> part_y p = real_of_int (pos_y q) \<and> part_real_x p = pos_real_x q
     \<and> part_real_y p = pos_real_y q \<and> part_color p = pos_color q"

text \<open>
  The three cases of a particle in one update pass at the time \<open>ct\<close>: it still waits for
  its start time; otherwise it is activated (if it was not) and moved by one step of
  gravity; and it expires when that step takes it below the canvas.
\<close>

definition waits :: "real \<Rightarrow> Particle \<Rightarrow> bool" where
  "waits ct p \<longleftrightarrow> \<not> active p \<and> ct < start_time p"

definition moved :: "Particle \<Rightarrow> Particle" where
  "moved p = p\<lparr>active := True, velocity := velocity p + GRAVITY,
               part_y := part_y p + (velocity p + GRAVITY)\<rparr>"

definition expires :: "real \<Rightarrow> Particle \<Rightarrow> bool" where
  "expires ct p \<longleftrightarrow> \<not> waits ct p \<and> real_of_int HEIGHT < part_y (moved p)"

definition survivors :: "real \<Rightarrow> Particle list \<Rightarrow> Particle list" where
  "survivors ct ps =
     map (\<lambda>p. if waits ct p then p else moved p) (filter (\<lambda>p. \<not> expires ct p) ps)"

definition expired_count :: "real \<Rightarrow> Particle list \<Rightarrow> nat" where
  "expired_count ct ps = length (filter (expires ct) ps)"

text \<open>The value of \<^verbatim>\<open>random.randint(-b, b)\<close> on the raw draw \<open>n\<close>, the point that the
  generator builds at the offset \<open>(x, y)\<close> from two draws, and the offsets it accepts.\<close>

definition jitter :: "int \<Rightarrow> nat \<Rightarrow> int" where
  "jitter b n = - b + int (n mod nat (b - (- b) + 1))"

definition generated :: "int \<Rightarrow> int \<Rightarrow> int \<Rightarrow> int \<Rightarrow> nat \<Rightarrow> nat \<Rightarrow> Pos" where
  "generated jx jy x y n1 n2 =
     \<lparr>pos_x = center_x + x + jitter jx n1, pos_y = center_y - y + jitter jy n2,
      pos_real_x = x, pos_real_y = y,
      pos_color = get_fade_color (real_of_int x) (real_of_int y)\<rparr>"

definition accepted :: "int \<Rightarrow> int \<Rightarrow> int \<Rightarrow> bool" where
  "accepted scale_type x y \<longleftrightarrow>
     heart_equation (real_of_int x) (real_of_int y) scale_type = Inr True"

text \<open>
  What holds of the globals from the end of the start-up on: the root cloud is the
  objects \<open>0, \<dots>, n - 1\<close> and the working cloud the objects \<open>n, \<dots>, 2n - 1\<close>, there are at
  least \<^verbatim>\<open>PARTICLE_COUNT\<close> points, the pool has \<^verbatim>\<open>PARTICLE_COUNT\<close> particles, and every
  root point satisfies the coordinate invariant.
\<close>

definition run_inv :: "nat \<Rightarrow> state \<Rightarrow> bool" where
  "run_inv n st \<longleftrightarrow>
     heart_data_root st = [0..<n] \<and> heart_data st = [n..<n + n] \<and> PARTICLE_COUNT \<le> n
     \<and> length (falling_particles st) = PARTICLE_COUNT
     \<and> (\<forall>r<n. coord_inv (heap st r))"

text \<open>A small store and a world with constant draws and a constant clock, for the
  concrete instances below.\<close>

definition demo_store :: store where
  "demo_store = (\<lambda>r. \<lparr>pos_x = 310, pos_y = 290, pos_real_x = 10, pos_real_y = 10,
                        pos_color = PINK\<rparr>)"

definition demo_world :: "real \<Rightarrow> world" where
  "demo_world now = \<lparr>rng = sconst 0, clock = sconst now\<rparr>"

definition fallen :: Particle where
  "fallen = \<lparr>part_x = 300, part_y = 601, part_real_x = 0, part_real_y = - 301,
             part_color = PINK, start_time = 0, velocity = 0, active = True\<rparr>"

definition waiting :: Particle where
  "waiting = \<lparr>part_x = 300, part_y = 300, part_real_x = 0, part_real_y = 0,
              part_color = PINK, start_time = 100, velocity = 0, active = False\<rparr>"

definition demo_state :: state where
  "demo_state = \<lparr>heap = demo_store, heart_data = [1], heart_data_root = [0],
                 falling_particles = fallen # replicate 999 waiting, screen = [],
                 env = demo_world 0\<rparr>"

section \<open>Properties of the scale factor\<close>

lemma cube_le_one:
  fixes s :: real
  assumes "0 < s" "s \<le> 1"
  shows "0 < s ^ 3" "s ^ 3 \<le> 1"
  using assms by (simp_all add: power_le_one)

lemma lin_bounds:
  fixes s :: real
  assumes "- 1 \<le> s" "s \<le> 1"
  shows "1 - 0.06 \<le> 1 + 0.06 * s" "1 + 0.06 * s \<le> 1 + 0.06"
  using assms by simp_all

text \<open>
  Claim C5. At every wall-clock time the scale factor lies between \<open>1 - 0.06\<close> and
  \<open>1 + 0.06\<close>, and it takes the same value again \<open>pi\<close> seconds later (the angle is twice
  the time, so a full turn of the sine takes \<open>pi\<close>).
\<close>

theorem scale_factor_bounded_periodic:
  "1 - 0.06 \<le> scale_factor now \<and> scale_factor now \<le> 1 + 0.06
   \<and> scale_factor (now + pi) = scale_factor now"
proof -
  have per: "sin ((now + pi) * 2) = sin (now * 2)"
  proof -
    have "(now + pi) * 2 = now * 2 + 2 * pi" by (simp add: algebra_simps)
    then show ?thesis by (simp only: sin_periodic)
  qed
  have lo: "- 1 \<le> sin (now * 2)" and hi: "sin (now * 2) \<le> 1" by simp_all
  have bounds: "1 - 0.06 \<le> scale_factor now \<and> scale_factor now \<le> 1 + 0.06"
  proof (cases "sin (now * 2) > 0")
    case True
    from cube_le_one [OF True hi]
    show ?thesis using True by (simp add: scale_factor_def Let_def)
  next
    case False
    from lin_bounds [OF lo hi]
    show ?thesis using False by (simp only: scale_factor_def Let_def if_False)
  qed
  have "scale_factor (now + pi) = scale_factor now"
    unfolding scale_factor_def Let_def per ..
  with bounds show ?thesis by simp
qed

section \<open>Properties of the heart curve\<close>





text \<open>Being farther from the centre than the scale constant is not enough: the point
  \<open>(150, 150)\<close>, at distance \<open>150 \<surd>2\<close>, lies on the curve of scale 150 and is accepted.\<close>

lemma heart_equation_on_curve: "heart_equation 150 150 0 = Inr True"
  by (simp add: heart_equation_def py_index_def scale_def)

text \<open>Close to the centre every offset is accepted: within a quarter of the squared
  scale, and so in the square of side 41 around the centre for the scale 120.\<close>

lemma near_centre_inside:
  fixes u v :: real
  assumes near: "u\<^sup>2 + v\<^sup>2 \<le> 1 / 4"
  shows "(u\<^sup>2 + v\<^sup>2 - 1) ^ 3 - u\<^sup>2 * v ^ 3 \<le> 0"
proof -
  define R where "R = u\<^sup>2 + v\<^sup>2"
  have R: "R \<le> 1 / 4" "0 \<le> R" using near by (simp_all add: R_def)
  have nn: "0 \<le> u\<^sup>2" "0 \<le> v\<^sup>2" by simp_all
  have u2: "u\<^sup>2 \<le> 1 / 4" "0 \<le> u\<^sup>2" using near nn by linarith+
  have "v\<^sup>2 \<le> 1 / 4" using near nn by linarith
  then have v2: "v\<^sup>2 \<le> (1 / 2)\<^sup>2" by (simp add: power2_eq_square)
  then have av: "\<bar>v\<bar> \<le> 1 / 2"
    using abs_le_square_iff [of v "1 / 2"] by simp
  have "(3 / 4) ^ 3 \<le> (1 - R) ^ 3" using R by (intro power_mono) simp_all
  then have cube: "(R - 1) ^ 3 \<le> - (27 / 64)"
    by (simp add: power3_eq_cube algebra_simps)
  have "\<bar>v\<bar> ^ 3 \<le> (1 / 2) ^ 3" using av by (intro power_mono) simp_all
  moreover have "\<bar>v ^ 3\<bar> = \<bar>v\<bar> ^ 3" by (rule power_abs)
  moreover have "(1 / 2 :: real) ^ 3 = 1 / 8" by (simp add: power3_eq_cube)
  moreover have "- (v ^ 3) \<le> \<bar>v ^ 3\<bar>" by (rule abs_ge_minus_self)
  ultimately have v3: "- (v ^ 3) \<le> 1 / 8" by linarith
  have "u\<^sup>2 * (- (v ^ 3)) \<le> u\<^sup>2 * (1 / 8)"
    using v3 u2 by (intro mult_left_mono) simp_all
  also have "\<dots> \<le> 1 / 32" using u2 by simp
  finally have "- (u\<^sup>2 * v ^ 3) \<le> 1 / 32" by simp
  with cube show ?thesis by (simp add: R_def)
qed

lemma box_accepted:
  assumes "\<bar>x\<bar> \<le> 20" and "\<bar>y\<bar> \<le> 20"
  shows "accepted 1 x y"
proof -
  have sq: "x\<^sup>2 \<le> 20\<^sup>2" "y\<^sup>2 \<le> 20\<^sup>2"
    using assms abs_le_square_iff [of x 20] abs_le_square_iff [of y 20] by simp_all
  then have "x\<^sup>2 + y\<^sup>2 \<le> 800" by simp
  then have "real_of_int (x\<^sup>2 + y\<^sup>2) \<le> 800" by linarith
  then have "(real_of_int x)\<^sup>2 + (real_of_int y)\<^sup>2 \<le> 800" by simp
  then have "(real_of_int x / 120)\<^sup>2 + (real_of_int y / 120)\<^sup>2 \<le> 1 / 4"
    by (simp add: power_divide)
  from near_centre_inside [OF this] show ?thesis
    by (simp add: accepted_def heart_equation_def py_index_def scale_def Let_def)
qed

section \<open>Properties of the colour gradient\<close>

lemma corner_pos: "0 < corner_distance"
  by (simp add: corner_distance_def WIDTH_def HEIGHT_def)

lemma fade_le_one: "1 - sqrt (dx\<^sup>2 + dy\<^sup>2) / corner_distance \<le> 1"
  using corner_pos by simp

lemma fade_agrees:
  "max 0 (1 - sqrt (dx\<^sup>2 + dy\<^sup>2) / corner_distance) = spec_fade dx dy"
  using fade_le_one [of dx dy] by (simp add: spec_fade_def spec_clamp_def min_def max_def)

lemma get_fade_color_refines: "get_fade_color dx dy = spec_gradient dx dy"
  unfolding get_fade_color_def spec_gradient_def Let_def spec_mix_def
    corner_distance_def [symmetric] fade_agrees ..

lemma spec_gradient_near: "spec_gradient 0 0 = PINK"
  by (simp add: spec_gradient_def spec_fade_def spec_clamp_def spec_mix_def PINK_def
      SOFTER_PINK_def chan0_def chan1_def chan2_def py_int_def)

lemma spec_gradient_far:
  assumes "sqrt (dx\<^sup>2 + dy\<^sup>2) = corner_distance"
  shows "spec_gradient dx dy = SOFTER_PINK"
  using corner_pos
  by (simp add: assms spec_gradient_def spec_fade_def spec_clamp_def spec_mix_def PINK_def
      SOFTER_PINK_def chan0_def chan1_def chan2_def py_int_def)

text \<open>
  Claim C7. \<^verbatim>\<open>get_fade_color\<close> is the gradient of the specification: the fade factor
  \<open>1 - distance / max_distance\<close> clamped to \<open>[0, 1]\<close> weighs the near colour in each channel,
  and each channel is the integer part of the interpolated value. At the centre the result
  is \<^verbatim>\<open>PINK\<close>, and at the distance of a corner it is \<^verbatim>\<open>SOFTER_PINK\<close>.
\<close>

theorem get_fade_color_gradient:
  "get_fade_color dx dy = spec_gradient dx dy
   \<and> get_fade_color 0 0 = PINK
   \<and> (sqrt (dx\<^sup>2 + dy\<^sup>2) = corner_distance \<longrightarrow> get_fade_color dx dy = SOFTER_PINK)"
proof (intro conjI impI)
  show "get_fade_color dx dy = spec_gradient dx dy"
    by (rule get_fade_color_refines)
next
  have "get_fade_color 0 0 = spec_gradient 0 0"
    by (rule get_fade_color_refines)
  then show "get_fade_color 0 0 = PINK"
    by (simp only: spec_gradient_near)
next
  assume "sqrt (dx\<^sup>2 + dy\<^sup>2) = corner_distance"
  then have "spec_gradient dx dy = SOFTER_PINK"
    by (rule spec_gradient_far)
  then show "get_fade_color dx dy = SOFTER_PINK"
    by (simp only: get_fade_color_refines)
qed

theorem get_fade_color_gradient_witness:
  "sqrt (300\<^sup>2 + 300\<^sup>2) = corner_distance
   \<and> get_fade_color 300 300 = spec_gradient 300 300
   \<and> get_fade_color 0 0 = PINK
   \<and> get_fade_color 300 300 = SOFTER_PINK"
proof -
  have c: "sqrt (300\<^sup>2 + 300\<^sup>2) = corner_distance"
    by (simp add: corner_distance_def WIDTH_def HEIGHT_def)
  from get_fade_color_gradient [of 300 300] c show ?thesis by blast
qed

section \<open>Properties of the heartbeat deformer\<close>

lemma randint_3:
  "randint (- 3) 3 w = (jitter3 (shd (rng w)), w\<lparr>rng := stl (rng w)\<rparr>)"
  by (simp add: randint_def randbelow_def jitter3_def)

lemma jitter3_range: "- 3 \<le> jitter3 n \<and> jitter3 n \<le> 3"
  unfolding jitter3_def by simp

lemma heart_beat_loop_step:
  "heart_beat_loop sf (h # hs) (r # rs) s w =
     heart_beat_loop sf hs rs
       (s(h := deformed sf (s r) (s h) (jitter3 (shd (rng w))) (jitter3 (shd (stl (rng w))))))
       (w\<lparr>rng := stl (stl (rng w))\<rparr>)"
  by (simp add: randint_3 Let_def deformed_def)

lemma heart_beat_loop_outside:
  "heart_beat_loop sf hs rs s w = Inr (s', w') \<Longrightarrow> q \<notin> set hs \<Longrightarrow> s' q = s q"
proof (induction hs arbitrary: rs s w)
  case Nil
  then show ?case by simp
next
  case (Cons h hs)
  show ?case
  proof (cases rs)
    case Nil
    with Cons.prems show ?thesis by simp
  next
    case (Cons r rs')
    with Cons.prems Cons.IH [of rs' _ _] show ?thesis
      by (simp only: heart_beat_loop_step) (fastforce simp: fun_upd_def)
  qed
qed

lemma heart_beat_loop_succeeds:
  "length hs \<le> length rs \<Longrightarrow> \<exists>s' w'. heart_beat_loop sf hs rs s w = Inr (s', w')"
proof (induction hs arbitrary: rs s w)
  case Nil
  then show ?case by simp
next
  case (Cons h hs)
  then obtain r rs' where rs: "rs = r # rs'" and "length hs \<le> length rs'"
    by (cases rs) auto
  with Cons.IH [of rs'] show ?case
    by (simp only: heart_beat_loop_step)
qed

lemma heart_beat_loop_color:
  "heart_beat_loop sf hs rs s w = Inr (s', w') \<Longrightarrow> pos_color (s' q) = pos_color (s q)"
proof (induction hs arbitrary: rs s w)
  case Nil
  then show ?case by simp
next
  case (Cons h hs)
  show ?case
  proof (cases rs)
    case Nil
    with Cons.prems show ?thesis by simp
  next
    case (Cons r rs')
    with Cons.prems have
      "heart_beat_loop sf hs rs'
         (s(h := deformed sf (s r) (s h) (jitter3 (shd (rng w))) (jitter3 (shd (stl (rng w))))))
         (w\<lparr>rng := stl (stl (rng w))\<rparr>) = Inr (s', w')"
      by (simp only: heart_beat_loop_step)
    from Cons.IH [OF this] show ?thesis
      by (simp add: deformed_def)
  qed
qed



lemma heart_beat_loop_length:
  "heart_beat_loop sf hs rs s w = Inr (s', w') \<Longrightarrow> length hs \<le> length rs"
proof (induction hs arbitrary: rs s w)
  case Nil
  then show ?case by simp
next
  case (Cons h hs)
  show ?case
  proof (cases rs)
    case Nil
    with Cons.prems show ?thesis by simp
  next
    case (Cons r rs')
    with Cons.prems Cons.IH [of rs'] show ?thesis
      by (simp only: heart_beat_loop_step) fastforce
  qed
qed

lemma heart_beat_loop_nth:
  "heart_beat_loop sf hs rs s w = Inr (s', w') \<Longrightarrow> distinct hs \<Longrightarrow> set hs \<inter> set rs = {}
   \<Longrightarrow> i < length hs
   \<Longrightarrow> s' (hs ! i) = deformed sf (s (rs ! i)) (s (hs ! i))
         (jitter3 (rng w !! (2 * i))) (jitter3 (rng w !! (2 * i + 1)))"
proof (induction hs arbitrary: rs s w i)
  case Nil
  then show ?case by simp
next
  case (Cons h hs)
  show ?case
  proof (cases rs)
    case Nil
    with Cons.prems show ?thesis by simp
  next
    case rs: (Cons r rs')
    let ?s = "s(h := deformed sf (s r) (s h) (jitter3 (shd (rng w))) (jitter3 (shd (stl (rng w)))))"
    let ?w = "w\<lparr>rng := stl (stl (rng w))\<rparr>"
    from rs Cons.prems have run: "heart_beat_loop sf hs rs' ?s ?w = Inr (s', w')"
      by (simp only: heart_beat_loop_step)
    from Cons.prems rs have d: "distinct hs" "h \<notin> set hs" "set hs \<inter> set rs' = {}"
      "h \<notin> set rs'" "h \<noteq> r" "r \<notin> set hs"
      by auto
    show ?thesis
    proof (cases i)
      case 0
      from heart_beat_loop_outside [OF run d(2)] show ?thesis
        using 0 rs by simp
    next
      case (Suc j)
      with Cons.prems have j: "j < length hs" by simp
      from heart_beat_loop_length [OF run] j have "j < length rs'" by simp
      with d have ne': "rs' ! j \<noteq> h" by (metis nth_mem)
      from j d have ne: "hs ! j \<noteq> h" by (metis nth_mem)
      have "s' (hs ! j) = deformed sf (?s (rs' ! j)) (?s (hs ! j))
              (jitter3 (rng ?w !! (2 * j))) (jitter3 (rng ?w !! (2 * j + 1)))"
        by (rule Cons.IH [OF run d(1) d(3) j])
      then show ?thesis
        using Suc rs ne ne' by simp
    qed
  qed
qed

declare heart_beat_loop.simps(3) [simp del]

lemma heart_beat_unfold:
  "heart_beat hs rs fr s w =
     heart_beat_loop (scale_factor (shd (clock w))) hs rs s (w\<lparr>clock := stl (clock w)\<rparr>)"
  by (simp add: heart_beat_def time_time_def)

lemma normalize_root_inv:
  "q \<in> set rs \<or> coord_inv (s q) \<Longrightarrow> coord_inv (normalize_root rs s q)"
proof (induction rs arbitrary: s)
  case Nil
  then show ?case by simp
next
  case (Cons r rs)
  show ?case
    unfolding normalize_root.simps Let_def
    by (rule Cons.IH) (use Cons.prems in \<open>auto simp: coord_inv_def\<close>)
qed

lemma py_int_of_int: "py_int (real_of_int n) = n"
  by (simp add: py_int_def)

lemma scale_factor_quarter: "scale_factor (pi / 4) = 1.06"
  by (simp add: scale_factor_def)

text \<open>
  Claim C2, as stated, fails: the deformer truncates toward zero, it does not round. With
  the root offset 10, the scale factor 1.06 (the clock reads \<open>pi / 4\<close>) and the jitter
  \<open>-3\<close>, the new offset is \<open>\<lfloor>10.6\<rfloor> - 3 = 7\<close>, while rounding gives 11 and no jitter in
  \<open>[-3, 3]\<close> leads from 11 to 7.
\<close>

theorem heart_beat_rounds_counterexample:
  "\<exists>s' w'. heart_beat [1] [0] 0 demo_store (demo_world (pi / 4)) = Inr (s', w')
     \<and> pos_real_x (s' 1) = 7
     \<and> spec_round (real_of_int (pos_real_x (demo_store 0)) * scale_factor (pi / 4)) = 11
     \<and> \<not> (\<exists>j. - 3 \<le> j \<and> j \<le> 3
            \<and> pos_real_x (s' 1)
                = spec_round (real_of_int (pos_real_x (demo_store 0)) * scale_factor (pi / 4)) + j)"
  by (simp add: heart_beat_unfold heart_beat_loop_step demo_world_def demo_store_def
      scale_factor_quarter deformed_def jitter3_def py_int_def spec_round_def)

text \<open>
  Claim C2, amended. When the working cloud has no object twice, shares no object with
  the root cloud and is not longer than it (the clouds of a run are so, by
  \<open>run_inv_clouds\<close> below), \<^verbatim>\<open>heart_beat\<close> returns, and for every index
  the new logical offset is the root offset times the scale factor, truncated toward zero,
  plus a jitter in \<open>[-3, 3]\<close> drawn for that axis; the screen coordinates are recomputed
  from the new offset.
\<close>

theorem heart_beat_truncates:
  assumes "distinct hs" and "set hs \<inter> set rs = {}" and "length hs \<le> length rs"
  shows "\<exists>s' w'. heart_beat hs rs fr s w = Inr (s', w')
     \<and> (\<forall>i<length hs.
          pos_real_x (s' (hs ! i))
            = py_int (real_of_int (pos_real_x (s (rs ! i))) * scale_factor (shd (clock w)))
              + jitter3 (rng w !! (2 * i))
        \<and> pos_real_y (s' (hs ! i))
            = py_int (real_of_int (pos_real_y (s (rs ! i))) * scale_factor (shd (clock w)))
              + jitter3 (rng w !! (2 * i + 1))
        \<and> - 3 \<le> jitter3 (rng w !! (2 * i)) \<and> jitter3 (rng w !! (2 * i)) \<le> 3
        \<and> - 3 \<le> jitter3 (rng w !! (2 * i + 1)) \<and> jitter3 (rng w !! (2 * i + 1)) \<le> 3
        \<and> pos_x (s' (hs ! i)) = center_x + pos_real_x (s' (hs ! i))
        \<and> pos_y (s' (hs ! i)) = center_y - pos_real_y (s' (hs ! i)))"
proof -
  let ?w = "w\<lparr>clock := stl (clock w)\<rparr>"
  let ?sf = "scale_factor (shd (clock w))"
  from heart_beat_loop_succeeds [OF assms(3)] obtain s' w'
    where run: "heart_beat_loop ?sf hs rs s ?w = Inr (s', w')" by blast
  have "\<forall>i<length hs. s' (hs ! i) = deformed ?sf (s (rs ! i)) (s (hs ! i))
          (jitter3 (rng w !! (2 * i))) (jitter3 (rng w !! (2 * i + 1)))"
    using heart_beat_loop_nth [OF run assms(1) assms(2)] by simp
  then show ?thesis
    using run jitter3_range by (simp add: heart_beat_unfold deformed_def)
qed

theorem heart_beat_truncates_witness:
  "distinct [1::nat] \<and> set [1::nat] \<inter> set [0] = {} \<and> length [1::nat] \<le> length [0::nat]
   \<and> (\<exists>s' w'. heart_beat [1] [0] 0 demo_store (demo_world (pi / 4)) = Inr (s', w')
        \<and> pos_real_x (s' 1) = 7 \<and> pos_real_y (s' 1) = 7
        \<and> pos_x (s' 1) = center_x + pos_real_x (s' 1)
        \<and> pos_y (s' 1) = center_y - pos_real_y (s' 1))"
  using heart_beat_truncates [of "[1]" "[0]" 0 demo_store "demo_world (pi / 4)"]
  by (auto simp: demo_world_def demo_store_def scale_factor_quarter py_int_def jitter3_def)

text \<open>
  Claim C8. When the sine of twice the clock reading is exactly 0, the scale factor is 1,
  and (for clouds as in the amended C2) every working point's logical offset is the root
  point's offset plus the jitter of that axis, so it differs from it by at most 3.
\<close>

theorem heart_beat_at_rest:
  assumes "sin (2 * shd (clock w)) = 0"
    and "distinct hs" and "set hs \<inter> set rs = {}" and "length hs \<le> length rs"
  shows "scale_factor (shd (clock w)) = 1
     \<and> (\<exists>s' w'. heart_beat hs rs fr s w = Inr (s', w')
          \<and> (\<forall>i<length hs.
               pos_real_x (s' (hs ! i)) = pos_real_x (s (rs ! i)) + jitter3 (rng w !! (2 * i))
             \<and> pos_real_y (s' (hs ! i)) = pos_real_y (s (rs ! i)) + jitter3 (rng w !! (2 * i + 1))
             \<and> \<bar>pos_real_x (s' (hs ! i)) - pos_real_x (s (rs ! i))\<bar> \<le> 3
             \<and> \<bar>pos_real_y (s' (hs ! i)) - pos_real_y (s (rs ! i))\<bar> \<le> 3))"
proof -
  let ?w = "w\<lparr>clock := stl (clock w)\<rparr>"
  from assms(1) have one: "scale_factor (shd (clock w)) = 1"
    by (simp add: scale_factor_def mult.commute)
  from heart_beat_loop_succeeds [OF assms(4)] obtain s' w'
    where run: "heart_beat_loop 1 hs rs s ?w = Inr (s', w')" by blast
  have nth: "\<forall>i<length hs. s' (hs ! i) = deformed 1 (s (rs ! i)) (s (hs ! i))
          (jitter3 (rng w !! (2 * i))) (jitter3 (rng w !! (2 * i + 1)))"
    using heart_beat_loop_nth [OF run assms(2) assms(3)] by simp
  have small: "\<bar>jitter3 n\<bar> \<le> 3" for n
    using jitter3_range [of n] by linarith
  from nth have "\<forall>i<length hs.
       pos_real_x (s' (hs ! i)) = pos_real_x (s (rs ! i)) + jitter3 (rng w !! (2 * i))
     \<and> pos_real_y (s' (hs ! i)) = pos_real_y (s (rs ! i)) + jitter3 (rng w !! (2 * i + 1))
     \<and> \<bar>pos_real_x (s' (hs ! i)) - pos_real_x (s (rs ! i))\<bar> \<le> 3
     \<and> \<bar>pos_real_y (s' (hs ! i)) - pos_real_y (s (rs ! i))\<bar> \<le> 3"
    by (simp add: deformed_def py_int_of_int small)
  with run one show ?thesis
    by (simp add: heart_beat_unfold small)
qed

theorem heart_beat_at_rest_witness:
  "sin (2 * shd (clock (demo_world 0))) = 0
   \<and> distinct [1::nat] \<and> set [1::nat] \<inter> set [0] = {} \<and> length [1::nat] \<le> length [0::nat]
   \<and> scale_factor (shd (clock (demo_world 0))) = 1
   \<and> (\<exists>s' w'. heart_beat [1] [0] 0 demo_store (demo_world 0) = Inr (s', w')
        \<and> pos_real_x (s' 1) = 7 \<and> pos_real_y (s' 1) = 7)"
  using heart_beat_at_rest [of "demo_world 0" "[1]" "[0]" 0 demo_store]
  by (auto simp: demo_world_def demo_store_def jitter3_def)

text \<open>
  Claim C10. A call of \<^verbatim>\<open>heart_beat\<close> on a working cloud that shares no object with the
  root cloud (and is not longer than it) returns, leaves the colour of every point as it
  was, and changes no object outside the working cloud; in particular every point of the
  root cloud is as it was.
\<close>

theorem heart_beat_frame:
  assumes "set hs \<inter> set rs = {}" and "length hs \<le> length rs"
  shows "\<exists>s' w'. heart_beat hs rs fr s w = Inr (s', w')
     \<and> (\<forall>q. pos_color (s' q) = pos_color (s q))
     \<and> (\<forall>q. q \<notin> set hs \<longrightarrow> s' q = s q)
     \<and> (\<forall>q\<in>set rs. s' q = s q)"
proof -
  let ?w = "w\<lparr>clock := stl (clock w)\<rparr>"
  let ?sf = "scale_factor (shd (clock w))"
  from heart_beat_loop_succeeds [OF assms(2)] obtain s' w'
    where run: "heart_beat_loop ?sf hs rs s ?w = Inr (s', w')" by blast
  have out: "\<forall>q. q \<notin> set hs \<longrightarrow> s' q = s q"
    using heart_beat_loop_outside [OF run] by blast
  moreover have "\<forall>q\<in>set rs. s' q = s q"
    using out assms(1) by blast
  moreover have "\<forall>q. pos_color (s' q) = pos_color (s q)"
    using heart_beat_loop_color [OF run] by blast
  ultimately show ?thesis
    using run by (simp add: heart_beat_unfold)
qed

theorem heart_beat_frame_witness:
  "set [1::nat] \<inter> set [0] = {} \<and> length [1::nat] \<le> length [0::nat]
   \<and> (\<exists>s' w'. heart_beat [1] [0] 0 demo_store (demo_world 0) = Inr (s', w')
        \<and> pos_color (s' 1) = PINK \<and> s' 0 = demo_store 0 \<and> s' 2 = demo_store 2)"
  using heart_beat_frame [of "[1]" "[0]" 0 demo_store "demo_world 0"]
  by (auto simp: demo_store_def)

section \<open>Properties of the particle simulator\<close>

lemma unit_draw_range: "0 \<le> unit_draw n \<and> unit_draw n < 1"
  by (simp add: unit_draw_def)

lemma uniform_0:
  "uniform 0 hi w = (hi * unit_draw (shd (rng w)), w\<lparr>rng := stl (rng w)\<rparr>)"
  by (simp add: uniform_def random_random_def unit_draw_def)

lemma make_particles_step:
  "make_particles (q # qs) hi w =
     (particle_of q (hi * unit_draw (shd (rng w))) (shd (clock w))
        # fst (make_particles qs hi (w\<lparr>rng := stl (rng w), clock := stl (clock w)\<rparr>)),
      snd (make_particles qs hi (w\<lparr>rng := stl (rng w), clock := stl (clock w)\<rparr>)))"
  by (simp add: uniform_0 Particle_init_def time_time_def particle_of_def Let_def
      split: prod.splits)

lemma make_particles_result:
  "make_particles qs hi w =
     (map (\<lambda>i. particle_of (qs ! i) (hi * unit_draw (rng w !! i)) (clock w !! i)) [0..<length qs],
      w\<lparr>rng := sdrop (length qs) (rng w), clock := sdrop (length qs) (clock w)\<rparr>)"
proof (induction qs arbitrary: w)
  case Nil
  show ?case by simp
next
  case (Cons q qs)
  show ?case
    by (simp only: make_particles_step Cons.IH)
       (simp add: map_upt_Suc del: upt_Suc)
qed

lemma update_loop_result:
  assumes "cloud \<noteq> []"
  shows "\<exists>drawn. update_loop ct cloud ps w =
     Inr (survivors ct ps,
          map (\<lambda>n. cloud ! (n mod length cloud))
            (stake (expired_count ct ps) (rng w)),
          drawn, w\<lparr>rng := sdrop (expired_count ct ps) (rng w)\<rparr>)"
proof (induction ps arbitrary: w)
  case Nil
  show ?case by (simp add: survivors_def expired_count_def)
next
  case (Cons p ps)
  show ?case
  proof (cases "waits ct p")
    case True
    with Cons [of w] show ?thesis
      by (auto simp: survivors_def expired_count_def waits_def expires_def)
  next
    case False
    show ?thesis
    proof (cases "expires ct p")
      case True
      from Cons [of "w\<lparr>rng := stl (rng w)\<rparr>"] obtain drawn where
        "update_loop ct cloud ps (w\<lparr>rng := stl (rng w)\<rparr>) =
          Inr (survivors ct ps,
            map (\<lambda>n. cloud ! (n mod length cloud))
              (stake (expired_count ct ps) (stl (rng w))),
            drawn, w\<lparr>rng := sdrop (expired_count ct ps) (stl (rng w))\<rparr>)"
        by auto
      with True False assms show ?thesis
        by (auto simp: survivors_def expired_count_def waits_def expires_def moved_def
            Let_def choice_def randbelow_def)
    next
      case notexp: False
      with False Cons [of w] show ?thesis
        by (auto simp: survivors_def expired_count_def waits_def expires_def moved_def Let_def)
    qed
  qed
qed

lemma survivors_length: "length (survivors ct ps) + expired_count ct ps = length ps"
  unfolding survivors_def expired_count_def
  using sum_length_filter_compl [of "expires ct" ps] by simp

lemma update_falling_particles_result:
  assumes "cloud \<noteq> []"
  shows "\<exists>drawn. update_falling_particles ps cloud w =
     Inr (survivors (shd (clock w)) ps
          @ map (\<lambda>i. particle_of
                   (cloud ! (rng w !! i mod length cloud))
                   (unit_draw (rng w !! (expired_count (shd (clock w)) ps + i)))
                   (clock w !! Suc i))
              [0..<expired_count (shd (clock w)) ps],
          drawn,
          w\<lparr>rng := sdrop (2 * expired_count (shd (clock w)) ps) (rng w),
            clock := sdrop (Suc (expired_count (shd (clock w)) ps)) (clock w)\<rparr>)"
proof -
  let ?ct = "shd (clock w)"
  let ?k = "expired_count ?ct ps"
  from update_loop_result [OF assms, of ?ct ps "w\<lparr>clock := stl (clock w)\<rparr>"]
  obtain drawn where loop:
    "update_loop ?ct cloud ps (w\<lparr>clock := stl (clock w)\<rparr>) =
       Inr (survivors ?ct ps,
            map (\<lambda>n. cloud ! (n mod length cloud)) (stake ?k (rng w)),
            drawn, w\<lparr>clock := stl (clock w), rng := sdrop ?k (rng w)\<rparr>)"
    by auto
  show ?thesis
    by (simp add: update_falling_particles_def time_time_def loop make_particles_result
        sdrop_snth mult_2 add.commute)
qed

lemma top_up_full:
  "PARTICLE_COUNT \<le> length pool \<Longrightarrow> top_up cloud pool w = Inr (pool, w)"
  by (subst top_up.simps) simp



lemma generate_falling_particles_succeeds:
  assumes "count \<le> length cloud" and "count \<le> 5000"
  shows "\<exists>ps w'. generate_falling_particles cloud count w = Inr (ps, w')"
  using assms
  by (auto simp: generate_falling_particles_def sample_def Let_def split: prod.splits)


lemma particle_of_facts:
  "built_from q (particle_of q d now)" "velocity (particle_of q d now) = 0"
  "\<not> active (particle_of q d now)" "start_time (particle_of q d now) = now + d"
  by (simp_all add: built_from_def particle_of_def)

lemma demo_survivors: "survivors 0 (fallen # replicate n waiting) = replicate n waiting"
  by (simp add: survivors_def waits_def expires_def moved_def fallen_def waiting_def
      HEIGHT_def GRAVITY_def filter_replicate)

lemma demo_expired: "expired_count 0 (fallen # replicate n waiting) = 1"
  by (simp add: expired_count_def waits_def expires_def moved_def fallen_def waiting_def
      HEIGHT_def GRAVITY_def filter_replicate)

lemma demo_heart_beat:
  "heart_beat [1] [0] 0 demo_store (demo_world 0) =
     Inr (demo_store(1 := deformed 1 (demo_store 0) (demo_store 1) (- 3) (- 3)), demo_world 0)"
  by (simp add: heart_beat_unfold heart_beat_loop_step demo_world_def scale_factor_def
      jitter3_def)

lemma active_expires:
  assumes "active p" and "real_of_int HEIGHT < part_y p" and "0 \<le> velocity p"
  shows "expires ct p"
  using assms by (simp add: expires_def waits_def moved_def GRAVITY_def)

text \<open>
  Claim C1, as stated, fails: the replacement is built from a point of the root cloud
  \<^verbatim>\<open>heart_data_root\<close>, not of the working cloud \<^verbatim>\<open>heart_data\<close>. In one frame from a state
  with one root point (object 0), one working point (object 1) and a pool of 1000
  particles of which the first has fallen off the canvas, the deformer moves the working
  point to \<open>(307, 293)\<close>, and the particle appended to the pool carries the coordinates
  \<open>(310, 290)\<close> of the root point, which no point of the working cloud has.
\<close>

theorem replacement_from_working_counterexample:
  "\<exists>st'. frame demo_state = Inr st'
     \<and> length (falling_particles st') = 1000
     \<and> built_from (heap st' 0) (last (falling_particles st'))
     \<and> heart_data_root st' = [0] \<and> heart_data st' = [1]
     \<and> \<not> (\<exists>r\<in>set (heart_data st'). built_from (heap st' r) (last (falling_particles st')))"
proof -
  let ?s1 = "demo_store(1 := deformed 1 (demo_store 0) (demo_store 1) (- 3) (- 3))"
  let ?rep = "particle_of (demo_store 0) (unit_draw 0) 0"
  let ?pool = "replicate 999 waiting @ [?rep]"
  from update_falling_particles_result [of "[demo_store 0]" "fallen # replicate 999 waiting"
      "demo_world 0"]
  obtain drawn w2 where
    up: "update_falling_particles (fallen # replicate 999 waiting) [demo_store 0] (demo_world 0)
           = Inr (?pool, drawn, w2)"
    by (auto simp: demo_world_def demo_survivors demo_expired)
  have top: "top_up c ?pool w2 = Inr (?pool, w2)" for c
    by (rule top_up_full) (simp add: PARTICLE_COUNT_def)
  have fr: "frame demo_state =
      Inr (demo_state\<lparr>heap := ?s1, falling_particles := ?pool,
            screen := [((pos_x (?s1 1), pos_y (?s1 1)), pos_color (?s1 1))] @ drawn,
            env := w2\<rparr>)"
    by (simp add: frame_def demo_state_def demo_heart_beat up top del: One_nat_def)
  have far: "\<not> built_from (?s1 1) ?rep"
    by (simp add: built_from_def particle_of_def deformed_def demo_store_def py_int_def
        center_x_def WIDTH_def)
  show ?thesis
    unfolding fr
    using far by (simp add: demo_state_def particle_of_facts del: One_nat_def)
qed

text \<open>
  Claim C1, amended. With a non-empty root cloud, one update pass returns the surviving
  particles followed by one replacement for each expired particle; the \<open>i\<close>-th replacement
  is built from a point chosen at random from the root cloud (as passed in
  \<open>cloud\<close>), has velocity 0, is not active, and starts at the clock reading of its
  construction plus a delay in \<open>[0, 1]\<close>.
\<close>

theorem replacement_from_root:
  assumes "cloud \<noteq> []"
  shows "\<exists>fresh drawn w'.
      update_falling_particles ps cloud w = Inr (survivors (shd (clock w)) ps @ fresh, drawn, w')
    \<and> length fresh = expired_count (shd (clock w)) ps
    \<and> (\<forall>i<length fresh.
          built_from (cloud ! (rng w !! i mod length cloud)) (fresh ! i)
        \<and> velocity (fresh ! i) = 0 \<and> \<not> active (fresh ! i)
        \<and> (\<exists>delay. 0 \<le> delay \<and> delay \<le> 1
              \<and> start_time (fresh ! i) = clock w !! Suc i + delay))"
proof -
  let ?k = "expired_count (shd (clock w)) ps"
  let ?fresh = "map (\<lambda>i. particle_of (cloud ! (rng w !! i mod length cloud))
                   (unit_draw (rng w !! (?k + i))) (clock w !! Suc i)) [0..<?k]"
  from update_falling_particles_result [OF assms, of ps w] obtain drawn w' where
    run: "update_falling_particles ps cloud w = Inr (survivors (shd (clock w)) ps @ ?fresh, drawn, w')"
    by blast
  have "\<exists>delay. 0 \<le> delay \<and> delay \<le> 1
          \<and> start_time (?fresh ! i) = clock w !! Suc i + delay" if "i < ?k" for i
    using that unit_draw_range [of "rng w !! (?k + i)"]
    by (intro exI [of _ "unit_draw (rng w !! (?k + i))"]) (simp add: particle_of_facts)
  then have "\<forall>i<length ?fresh.
          built_from (cloud ! (rng w !! i mod length cloud)) (?fresh ! i)
        \<and> velocity (?fresh ! i) = 0 \<and> \<not> active (?fresh ! i)
        \<and> (\<exists>delay. 0 \<le> delay \<and> delay \<le> 1
              \<and> start_time (?fresh ! i) = clock w !! Suc i + delay)"
    by (simp add: particle_of_facts)
  with run show ?thesis
    by (intro exI [of _ ?fresh] exI [of _ drawn] exI [of _ w']) simp
qed

theorem replacement_from_root_witness:
  "[demo_store 0] \<noteq> []
   \<and> (\<exists>fresh drawn w'.
        update_falling_particles [fallen] [demo_store 0] (demo_world 0) = Inr (fresh, drawn, w')
      \<and> length fresh = 1 \<and> built_from (demo_store 0) (fresh ! 0)
      \<and> velocity (fresh ! 0) = 0 \<and> \<not> active (fresh ! 0))"
  using replacement_from_root [of "[demo_store 0]" "[fallen]" "demo_world 0"]
    demo_survivors [of 0] demo_expired [of 0]
  by (auto simp: demo_world_def)

text \<open>
  Claim C9. If the pool holds an active particle \<open>p\<close> whose \<open>y\<close> exceeds the canvas height
  (with a velocity that is not negative, as every velocity in a run is, by \<open>run_velocity\<close>
  below), one update pass
  returns the survivors of the particles before and after \<open>p\<close>, without \<open>p\<close>, followed by
  the replacements: one for \<open>p\<close> besides those of the other expired particles, each with
  velocity 0 and not active; the size of the pool is unchanged.
\<close>

theorem expired_particle_replaced:
  assumes "cloud \<noteq> []" and "active p" and "real_of_int HEIGHT < part_y p"
    and "0 \<le> velocity p"
  shows "\<exists>fresh drawn w'.
      update_falling_particles (pre @ p # post) cloud w
        = Inr (survivors (shd (clock w)) pre @ survivors (shd (clock w)) post @ fresh, drawn, w')
    \<and> length fresh
        = expired_count (shd (clock w)) pre + 1 + expired_count (shd (clock w)) post
    \<and> length (survivors (shd (clock w)) pre @ survivors (shd (clock w)) post @ fresh)
        = length (pre @ p # post)
    \<and> (\<forall>r\<in>set fresh. velocity r = 0 \<and> \<not> active r)"
proof -
  let ?ct = "shd (clock w)"
  let ?k = "expired_count ?ct (pre @ p # post)"
  let ?fresh = "map (\<lambda>i. particle_of (cloud ! (rng w !! i mod length cloud))
                   (unit_draw (rng w !! (?k + i))) (clock w !! Suc i)) [0..<?k]"
  have ex: "expires ?ct p" by (rule active_expires) fact+
  then have surv: "survivors ?ct (pre @ p # post) = survivors ?ct pre @ survivors ?ct post"
    by (simp add: survivors_def)
  from ex have cnt: "?k = expired_count ?ct pre + 1 + expired_count ?ct post"
    by (simp add: expired_count_def)
  from update_falling_particles_result [OF assms(1), of "pre @ p # post" w] obtain drawn w' where
    run: "update_falling_particles (pre @ p # post) cloud w
            = Inr (survivors ?ct (pre @ p # post) @ ?fresh, drawn, w')"
    by blast
  have len: "length ?fresh = ?k" by simp
  have size: "length (survivors ?ct pre @ survivors ?ct post @ ?fresh) = length (pre @ p # post)"
    using survivors_length [of ?ct "pre @ p # post"] surv by simp
  have new: "\<forall>r\<in>set ?fresh. velocity r = 0 \<and> \<not> active r"
    by (auto simp: particle_of_facts)
  from run surv have "update_falling_particles (pre @ p # post) cloud w
        = Inr (survivors ?ct pre @ survivors ?ct post @ ?fresh, drawn, w')" by simp
  with len cnt size new show ?thesis
    by (intro exI [of _ ?fresh] exI [of _ drawn] exI [of _ w']) simp
qed

theorem expired_particle_replaced_witness:
  "[demo_store 0] \<noteq> [] \<and> active fallen \<and> real_of_int HEIGHT < part_y fallen
   \<and> 0 \<le> velocity fallen
   \<and> (\<exists>fresh drawn w'.
        update_falling_particles ([waiting] @ fallen # [waiting]) [demo_store 0] (demo_world 0)
          = Inr ([waiting] @ [waiting] @ fresh, drawn, w')
      \<and> length fresh = 1 \<and> velocity (fresh ! 0) = 0 \<and> \<not> active (fresh ! 0))"
proof -
  have s: "survivors 0 [waiting] = [waiting]" "expired_count 0 [waiting] = 0"
    by (simp_all add: survivors_def expired_count_def waits_def expires_def waiting_def)
  have h: "[demo_store 0] \<noteq> []" "active fallen" "real_of_int HEIGHT < part_y fallen"
    "0 \<le> velocity fallen"
    by (simp_all add: fallen_def HEIGHT_def)
  from expired_particle_replaced [OF h, of "[waiting]" "[waiting]" "demo_world 0"]
  obtain fresh drawn w' where
    "update_falling_particles ([waiting] @ fallen # [waiting]) [demo_store 0] (demo_world 0)
          = Inr ([waiting] @ [waiting] @ fresh, drawn, w')"
    "length fresh = 1" "\<forall>r\<in>set fresh. velocity r = 0 \<and> \<not> active r"
    by (auto simp: s demo_world_def)
  moreover from this have "velocity (fresh ! 0) = 0 \<and> \<not> active (fresh ! 0)"
    by (cases fresh) auto
  ultimately show ?thesis using h by blast
qed

section \<open>Properties of the start-up and of the run\<close>

lemma randint_jitter:
  "randint (- b) b w = (jitter b (shd (rng w)), w\<lparr>rng := stl (rng w)\<rparr>)"
  by (simp add: randint_def randbelow_def jitter_def)

lemma heart_equation_Inr:
  assumes "py_index scale scale_type = Inr s"
  shows "heart_equation x y scale_type = Inr True \<or> heart_equation x y scale_type = Inr False"
  by (simp add: heart_equation_def assms Let_def)

lemma scan_column_step:
  assumes "py_index scale scale_type = Inr s"
  shows "scan_column jx jy scale_type x (y # ys) points m w =
     (if accepted scale_type x y then
        scan_column jx jy scale_type x ys (points @ [next_ref m])
          (m\<lparr>cells := (cells m)
                 (next_ref m := generated jx jy x y (shd (rng w)) (shd (stl (rng w)))),
             next_ref := Suc (next_ref m)\<rparr>)
          (w\<lparr>rng := stl (stl (rng w))\<rparr>)
      else scan_column jx jy scale_type x ys points m w)"
  using heart_equation_Inr [OF assms, of "real_of_int x" "real_of_int y"]
  by (auto simp: accepted_def randint_jitter new_Pos_def generated_def Let_def)

lemma scan_column_result:
  assumes "py_index scale scale_type = Inr s"
  shows "\<exists>m' w'. scan_column jx jy scale_type x ys points m w
            = Inr (points @ [next_ref m..<next_ref m'], m', w')
     \<and> next_ref m' = next_ref m + length (filter (accepted scale_type x) ys)
     \<and> (\<forall>r<next_ref m. cells m' r = cells m r)"
proof (induction ys arbitrary: points m w)
  case Nil
  show ?case by simp
next
  case (Cons y ys)
  show ?case
  proof (cases "accepted scale_type x y")
    case False
    with Cons [of points m w] show ?thesis
      by (simp only: scan_column_step [OF assms]) simp
  next
    case True
    let ?m = "m\<lparr>cells := (cells m)
                 (next_ref m := generated jx jy x y (shd (rng w)) (shd (stl (rng w)))),
             next_ref := Suc (next_ref m)\<rparr>"
    from Cons [of "points @ [next_ref m]" ?m "w\<lparr>rng := stl (stl (rng w))\<rparr>"]
    obtain m' w' where
      run: "scan_column jx jy scale_type x ys (points @ [next_ref m]) ?m
              (w\<lparr>rng := stl (stl (rng w))\<rparr>)
            = Inr ((points @ [next_ref m]) @ [next_ref ?m..<next_ref m'], m', w')"
      and nx: "next_ref m' = next_ref ?m + length (filter (accepted scale_type x) ys)"
      and old: "\<forall>r<next_ref ?m. cells m' r = cells ?m r"
      by blast
    from nx have "next_ref m < next_ref m'" by simp
    then have "[next_ref m..<next_ref m'] = next_ref m # [next_ref ?m..<next_ref m']"
      using upt_conv_Cons [of "next_ref m" "next_ref m'"] by simp
    with run nx old True show ?thesis
      by (simp only: scan_column_step [OF assms]) auto
  qed
qed

lemma scan_rows_result:
  assumes "py_index scale scale_type = Inr s"
  shows "\<exists>m' w'. scan_rows jx jy scale_type xs ys points m w
            = Inr (points @ [next_ref m..<next_ref m'], m', w')
     \<and> next_ref m' = next_ref m
          + length (filter (\<lambda>(x, y). accepted scale_type x y) (List.product xs ys))
     \<and> (\<forall>r<next_ref m. cells m' r = cells m r)"
proof (induction xs arbitrary: points m w)
  case Nil
  show ?case by simp
next
  case (Cons x xs)
  from scan_column_result [OF assms, of jx jy x ys points m w] obtain m1 w1 where
    col: "scan_column jx jy scale_type x ys points m w
            = Inr (points @ [next_ref m..<next_ref m1], m1, w1)"
    and n1: "next_ref m1 = next_ref m + length (filter (accepted scale_type x) ys)"
    and o1: "\<forall>r<next_ref m. cells m1 r = cells m r"
    by blast
  from Cons [of "points @ [next_ref m..<next_ref m1]" m1 w1] obtain m' w' where
    rows: "scan_rows jx jy scale_type xs ys (points @ [next_ref m..<next_ref m1]) m1 w1
            = Inr ((points @ [next_ref m..<next_ref m1]) @ [next_ref m1..<next_ref m'], m', w')"
    and n2: "next_ref m' = next_ref m1
          + length (filter (\<lambda>(x, y). accepted scale_type x y) (List.product xs ys))"
    and o2: "\<forall>r<next_ref m1. cells m' r = cells m1 r"
    by blast
  from n1 n2 have le: "next_ref m \<le> next_ref m1" "next_ref m1 \<le> next_ref m'" by simp_all
  then have join: "[next_ref m..<next_ref m1] @ [next_ref m1..<next_ref m']
                   = [next_ref m..<next_ref m']"
    by (metis le_Suc_ex upt_add_eq_append)
  have cnt: "length (filter (\<lambda>(x, y). accepted scale_type x y) (List.product (x # xs) ys))
      = length (filter (accepted scale_type x) ys)
        + length (filter (\<lambda>(x, y). accepted scale_type x y) (List.product xs ys))"
    by (simp add: filter_map o_def)
  have old: "\<forall>r<next_ref m. cells m' r = cells m r"
    using o1 o2 le by auto
  show ?case
    using col rows join n1 n2 old cnt by simp
qed

lemma deepcopy_list_result:
  assumes "distinct rs" and "\<forall>r\<in>set rs. memo r = None"
  shows "\<exists>m'. deepcopy_list rs memo m = ([next_ref m..<next_ref m + length rs], m')
     \<and> next_ref m' = next_ref m + length rs
     \<and> (\<forall>r<next_ref m. cells m' r = cells m r)"
  using assms
proof (induction rs arbitrary: memo m)
  case Nil
  show ?case by simp
next
  case (Cons r rs)
  let ?m = "m\<lparr>cells := (cells m)(next_ref m := cells m r), next_ref := Suc (next_ref m)\<rparr>"
  from Cons.prems have "distinct rs" "\<forall>q\<in>set rs. (memo(r \<mapsto> next_ref m)) q = None"
    by auto
  from Cons.IH [OF this, of ?m] obtain m' where
    rec: "deepcopy_list rs (memo(r \<mapsto> next_ref m)) ?m
            = ([next_ref ?m..<next_ref ?m + length rs], m')"
    and nx: "next_ref m' = next_ref ?m + length rs"
    and old: "\<forall>q<next_ref ?m. cells m' q = cells ?m q"
    by blast
  have "[next_ref m..<next_ref m + length (r # rs)]
          = next_ref m # [next_ref ?m..<next_ref ?m + length rs]"
    using upt_conv_Cons [of "next_ref m" "next_ref m + Suc (length rs)"] by simp
  moreover from Cons.prems have "memo r = None" by simp
  ultimately show ?case
    using rec nx old by (auto simp: new_Pos_def)
qed

lemma set_py_range_unit: "set (py_range a b 1) = {a..<b}"
proof -
  have "(\<lambda>k. a + int k) ` {0..<nat (b - a)} = {a..<b}"
  proof (intro equalityI subsetI)
    fix x assume "x \<in> (\<lambda>k. a + int k) ` {0..<nat (b - a)}"
    then show "x \<in> {a..<b}" by auto
  next
    fix x assume x: "x \<in> {a..<b}"
    then have "x = a + int (nat (x - a))" "nat (x - a) \<in> {0..<nat (b - a)}" by auto
    then show "x \<in> (\<lambda>k. a + int k) ` {0..<nat (b - a)}" by (rule image_eqI)
  qed
  then show ?thesis by (simp add: py_range_def)
qed

lemma distinct_py_range_unit: "distinct (py_range a b 1)"
  by (simp add: py_range_def distinct_map inj_on_def)

lemma hide_count:
  "1681 \<le> length (filter (\<lambda>(x, y). accepted 1 x y)
              (List.product (py_range ((- WIDTH) div 2) (WIDTH div 2) 1)
                            (py_range ((- HEIGHT) div 2) (HEIGHT div 2) 1)))"
proof -
  let ?xs = "py_range ((- WIDTH) div 2) (WIDTH div 2) 1"
  let ?ys = "py_range ((- HEIGHT) div 2) (HEIGHT div 2) 1"
  let ?P = "\<lambda>(x, y). accepted 1 x y"
  have sx: "set ?xs = {- 300..<300}" and sy: "set ?ys = {- 300..<300}"
    by (simp_all add: set_py_range_unit WIDTH_def HEIGHT_def)
  have "distinct (List.product ?xs ?ys)"
    by (simp add: distinct_product distinct_py_range_unit)
  then have len: "length (filter ?P (List.product ?xs ?ys))
      = card ({z. ?P z} \<inter> set (List.product ?xs ?ys))"
    by (rule distinct_length_filter)
  have sub: "{- 20..20} \<times> {- 20..20} \<subseteq> {z. ?P z} \<inter> set (List.product ?xs ?ys)"
  proof
    fix z :: "int \<times> int" assume "z \<in> {- 20..20} \<times> {- 20..20}"
    then obtain x y where z: "z = (x, y)" and b: "\<bar>x\<bar> \<le> 20" "\<bar>y\<bar> \<le> 20" by auto
    from b have "accepted 1 x y" by (rule box_accepted)
    moreover from b have "x \<in> {- 300..<300}" "y \<in> {- 300..<300}" by auto
    ultimately show "z \<in> {z. ?P z} \<inter> set (List.product ?xs ?ys)"
      using z sx sy by simp
  qed
  have "card ({- 20..20 :: int} \<times> {- 20..20 :: int}) = 1681"
    by (simp add: card_cartesian_product)
  moreover have "card ({- 20..20 :: int} \<times> {- 20..20 :: int})
      \<le> card ({z. ?P z} \<inter> set (List.product ?xs ?ys))"
    by (rule card_mono [OF _ sub]) simp
  ultimately show ?thesis using len by simp
qed

lemma startup_result:
  "\<exists>st n. startup w = Inr st \<and> PARTICLE_COUNT \<le> n
     \<and> heart_data_root st = [0..<n] \<and> heart_data st = [n..<n + n]
     \<and> length (falling_particles st) = PARTICLE_COUNT
     \<and> (\<forall>r<n. coord_inv (heap st r))"
proof -
  have i0: "py_index scale 0 = Inr 150" and i1: "py_index scale 1 = Inr 120"
    by (simp_all add: py_index_def scale_def)
  have "next_ref empty_memory = 0" by (simp add: empty_memory_def)
  with scan_rows_result [OF i0, of 20 10 _ _ "[]" empty_memory w] obtain m1 w1 where
    g1: "get_pos_begin [] 0 empty_memory w = Inr ([0..<next_ref m1], m1, w1)"
    unfolding get_pos_begin_def by fastforce
  from scan_rows_result [OF i1, of 5 10 _ _ "[]" m1 w1] obtain m2 w2 where
    g2: "get_hide_pos [] 1 m1 w1 = Inr ([next_ref m1..<next_ref m2], m2, w2)"
    and n2: "next_ref m2 = next_ref m1
       + length (filter (\<lambda>(x, y). accepted 1 x y)
              (List.product (py_range ((- WIDTH) div 2) (WIDTH div 2) 1)
                            (py_range ((- HEIGHT) div 2) (HEIGHT div 2) 1)))"
    unfolding get_hide_pos_def by fastforce
  let ?n = "next_ref m2"
  from n2 hide_count have big: "1681 \<le> ?n" and le: "next_ref m1 \<le> ?n" by simp_all
  from le have root1: "[0..<next_ref m1] @ [next_ref m1..<?n] = [0..<?n]"
    by (metis le_Suc_ex upt_add_eq_append zero_le)
  from deepcopy_list_result [of "[0..<?n]" Map.empty m2] obtain m3 where
    dc: "deepcopy [0..<?n] m2 = ([?n..<?n + ?n], m3)"
    by (auto simp: deepcopy_def)
  from big have "PARTICLE_COUNT \<le> length (map (cells m3) [0..<?n])" "PARTICLE_COUNT \<le> 5000"
    by (simp_all add: PARTICLE_COUNT_def)
  from generate_falling_particles_succeeds [OF this, of w2] obtain ps w3 where
    gen: "generate_falling_particles (map (cells m3) [0..<?n]) PARTICLE_COUNT w2 = Inr (ps, w3)"
    by blast
  then have len: "length ps = PARTICLE_COUNT" by (rule generate_falling_particles_length)
  have st: "startup w = Inr \<lparr>heap = normalize_root [0..<?n] (cells m3),
       heart_data = [?n..<?n + ?n], heart_data_root = [0..<?n], falling_particles = ps,
       screen = [], env = w3\<rparr>"
    unfolding startup_def g1 g2 sum.case prod.case root1 Let_def dc gen ..
  have "\<forall>r<?n. coord_inv (normalize_root [0..<?n] (cells m3) r)"
    by (simp add: normalize_root_inv)
  with st len big show ?thesis
    by (intro exI [of _ ?n] exI [of _ "\<lparr>heap = normalize_root [0..<?n] (cells m3),
       heart_data = [?n..<?n + ?n], heart_data_root = [0..<?n], falling_particles = ps,
       screen = [], env = w3\<rparr>"]) (simp add: PARTICLE_COUNT_def)
qed



lemma startup_run_inv: "\<exists>st n. startup w = Inr st \<and> run_inv n st"
  using startup_result [of w] unfolding run_inv_def by blast


text \<open>In every state of a run the working cloud has no object twice, shares no object
  with the root cloud and has its length: the conditions under which the deformer is
  described above.\<close>

lemma run_inv_clouds:
  assumes "run_inv n st"
  shows "distinct (heart_data st)" "set (heart_data st) \<inter> set (heart_data_root st) = {}"
    "length (heart_data st) = length (heart_data_root st)" "heart_data_root st \<noteq> []"
  using assms by (auto simp: run_inv_def PARTICLE_COUNT_def)

text \<open>Velocities are never negative in a run: a particle starts with velocity 0 and an
  update only adds \<^verbatim>\<open>GRAVITY\<close>.\<close>

lemma survivors_velocity:
  assumes "\<forall>p\<in>set ps. 0 \<le> velocity p"
  shows "\<forall>p\<in>set (survivors ct ps). 0 \<le> velocity p"
  using assms by (auto simp: survivors_def moved_def GRAVITY_def)

lemma update_velocity:
  assumes "cloud \<noteq> []" and "\<forall>p\<in>set ps. 0 \<le> velocity p"
    and "update_falling_particles ps cloud w = Inr (pool', drawn, w')"
  shows "\<forall>p\<in>set pool'. 0 \<le> velocity p"
proof -
  from update_falling_particles_result [OF assms(1), of ps w] assms(3)
  obtain fresh where "pool' = survivors (shd (clock w)) ps @ fresh"
    "\<forall>p\<in>set fresh. velocity p = 0"
    by (auto simp: particle_of_facts)
  with survivors_velocity [OF assms(2), of "shd (clock w)"] show ?thesis by auto
qed

lemma generate_velocity:
  assumes "generate_falling_particles cloud count w = Inr (ps, w')"
  shows "\<forall>p\<in>set ps. velocity p = 0"
  using assms
  by (auto simp: generate_falling_particles_def make_particles_result particle_of_facts
      split: sum.splits)

lemma top_up_velocity:
  assumes "top_up cloud pool w = Inr (pool', w')" and "\<forall>p\<in>set pool. 0 \<le> velocity p"
  shows "\<forall>p\<in>set pool'. 0 \<le> velocity p"
  using assms
proof (induction cloud pool w rule: top_up.induct)
  case (1 cloud pool w)
  show ?case
  proof (cases "length pool < PARTICLE_COUNT")
    case False
    with "1.prems" show ?thesis by (subst (asm) top_up.simps) simp
  next
    case True
    with "1.prems"(1) obtain batch w1 where
      gen: "generate_falling_particles cloud 5 w = Inr (batch, w1)"
      and rec: "top_up cloud (pool @ batch) w1 = Inr (pool', w')"
      by (subst (asm) top_up.simps) (auto split: sum.splits)
    from generate_velocity [OF gen] "1.prems"(2)
    have "\<forall>p\<in>set (pool @ batch). 0 \<le> velocity p" by auto
    from "1.IH" [OF True gen refl rec this] show ?thesis .
  qed
qed

lemma frame_velocity:
  assumes "frame st = Inr st'" and "heart_data_root st \<noteq> []"
    and "\<forall>p\<in>set (falling_particles st). 0 \<le> velocity p"
  shows "\<forall>p\<in>set (falling_particles st'). 0 \<le> velocity p"
proof -
  from assms(1) obtain s1 w1 pool1 drawn w2 pool2 w3 where
    up: "update_falling_particles (falling_particles st) (map s1 (heart_data_root st)) w1
          = Inr (pool1, drawn, w2)"
    and top: "top_up (map s1 (heart_data st)) pool1 w2 = Inr (pool2, w3)"
    and st': "falling_particles st' = pool2"
    by (auto simp: frame_def Let_def split: sum.splits)
  from assms(2) have "map s1 (heart_data_root st) \<noteq> []" by simp
  from update_velocity [OF this assms(3) up] have "\<forall>p\<in>set pool1. 0 \<le> velocity p" .
  from top_up_velocity [OF top this] st' show ?thesis by simp
qed

lemma frames_velocity:
  assumes "frames k st = Inr st'" and "heart_data_root st \<noteq> []"
    and "\<forall>p\<in>set (falling_particles st). 0 \<le> velocity p"
  shows "\<forall>p\<in>set (falling_particles st'). 0 \<le> velocity p"
  using assms
proof (induction k arbitrary: st)
  case 0
  then show ?case by simp
next
  case (Suc k)
  from Suc.prems(1) obtain st1 where fr: "frame st = Inr st1" and rest: "frames k st1 = Inr st'"
    by (auto split: sum.splits)
  from fr have "heart_data_root st1 = heart_data_root st"
    by (auto simp: frame_def Let_def split: sum.splits)
  with Suc.prems(2) have "heart_data_root st1 \<noteq> []" by simp
  from Suc.IH [OF rest this frame_velocity [OF fr Suc.prems(2) Suc.prems(3)]] show ?case .
qed

lemma startup_velocity:
  assumes "startup w = Inr st"
  shows "\<forall>p\<in>set (falling_particles st). velocity p = 0"
proof -
  from assms obtain cloud w2 w3 where
    "generate_falling_particles cloud PARTICLE_COUNT w2 = Inr (falling_particles st, w3)"
    by (auto simp: startup_def Let_def split: sum.splits prod.splits)
  then show ?thesis by (rule generate_velocity)
qed

lemma run_velocity:
  assumes "startup w = Inr st0" and "frames k st0 = Inr st"
  shows "\<forall>p\<in>set (falling_particles st). 0 \<le> velocity p"
proof -
  from startup_run_inv [of w] assms(1) obtain n where "run_inv n st0" by auto
  then have root: "heart_data_root st0 \<noteq> []" by (rule run_inv_clouds)
  from startup_velocity [OF assms(1)] have "\<forall>p\<in>set (falling_particles st0). 0 \<le> velocity p"
    by simp
  from frames_velocity [OF assms(2) root this] show ?thesis .
qed

text \<open>A point as the generator builds it is off the coordinate invariant by its jitter;
  the invariant holds of the root cloud from the normalization pass on.\<close>

lemma generated_offset:
  "pos_x (generated jx jy x y n1 n2) = center_x + pos_real_x (generated jx jy x y n1 n2) + jitter jx n1"
  "pos_y (generated jx jy x y n1 n2) = center_y - pos_real_y (generated jx jy x y n1 n2) + jitter jy n2"
  by (simp_all add: generated_def)

lemma generated_not_inv: "\<not> coord_inv (generated 20 10 0 0 0 0)"
  by (simp add: coord_inv_def generated_def jitter_def)





end
